theory Spec2Isabelle
  imports Main
begin

section \<open>Errors raised by the calculator\<close>

text \<open>
  Every \<^verbatim>\<open>raise\<close> of the source is a value of \<open>error\<close>.  The validation
  exceptions keep the payload the source stores in them (\<^verbatim>\<open>invalid_value\<close> and the
  \<^verbatim>\<open>details\<close> dictionary); their message text is a rendering of that payload and is
  not modelled.  The three \<^verbatim>\<open>ValueError\<close> sites of the source are told apart by
  constructor: \<open>InvalidMonth m\<close> is \<^verbatim>\<open>ValueError(f"Invalid month: {m}")\<close>,
  \<open>NameEmpty\<close> is \<^verbatim>\<open>ValueError("Name cannot be empty")\<close> and \<open>AgeNegative\<close> is
  \<^verbatim>\<open>ValueError("Age cannot be negative")\<close>.  \<open>KeyError\<close> is a failed subscript of a
  dictionary, \<open>TypeError\<close> and \<open>AttributeError\<close> are what Python raises when a value
  object's check meets a value of the wrong type.
\<close>

datatype error =
    NameValidationException string string
  | AgeValidationException int int int
  | InvalidMonth int
  | NameEmpty
  | AgeNegative
  | KeyError
  | TypeError
  | AttributeError

section \<open>Leap years: \<^verbatim>\<open>StandardLeapYearCalculator\<close>\<close>

text \<open>
  \<^verbatim>\<open>is_leap_year\<close> returns \<^verbatim>\<open>calendar.isleap(year)\<close>, which the Python standard library
  defines as \<^verbatim>\<open>year % 4 == 0 and (year % 100 != 0 or year % 400 == 0)\<close>.  Python's
  \<^verbatim>\<open>%\<close> with a positive divisor is the floor remainder, as \<open>mod\<close> on \<open>int\<close> is.
\<close>

definition is_leap_year :: "int \<Rightarrow> bool" where
  "is_leap_year year \<longleftrightarrow> year mod 4 = 0 \<and> (year mod 100 \<noteq> 0 \<or> year mod 400 = 0)"

definition get_days_in_year :: "int \<Rightarrow> int" where
  "get_days_in_year year = (if is_leap_year year then 366 else 365)"

section \<open>Month lengths: \<^verbatim>\<open>StandardMonthDaysCalculator\<close>\<close>

definition DAYS_IN_MONTH :: "(int \<times> int) list" where
  "DAYS_IN_MONTH =
     [(1, 31), (2, 28), (3, 31), (4, 30), (5, 31), (6, 30),
      (7, 31), (8, 31), (9, 30), (10, 31), (11, 30), (12, 31)]"

definition DAYS_IN_MONTH_LEAP :: "(int \<times> int) list" where
  "DAYS_IN_MONTH_LEAP =
     [(1, 31), (2, 29), (3, 31), (4, 30), (5, 31), (6, 30),
      (7, 31), (8, 31), (9, 30), (10, 31), (11, 30), (12, 31)]"

text \<open>The subscript \<^verbatim>\<open>lookup[month]\<close> of a dictionary raises on a missing key.\<close>

definition subscript :: "(int \<times> int) list \<Rightarrow> int \<Rightarrow> error + int" where
  "subscript lookup k = (case map_of lookup k of None \<Rightarrow> Inl KeyError | Some v \<Rightarrow> Inr v)"

definition get_days_in_month :: "int \<Rightarrow> bool \<Rightarrow> error + int" where
  "get_days_in_month month leap =
     (if month < 1 \<or> month > 12 then Inl (InvalidMonth month)
      else subscript (if leap then DAYS_IN_MONTH_LEAP else DAYS_IN_MONTH) month)"

text \<open>\<^verbatim>\<open>range(a, b)\<close> of Python: the integers from \<open>a\<close> up to \<open>b - 1\<close>, none when \<open>b \<le> a\<close>.\<close>

definition range_py :: "int \<Rightarrow> int \<Rightarrow> int list" where
  "range_py a b = [a..b - 1]"

text \<open>
  The loop \<^verbatim>\<open>for m in ...: total += get_days_in_month(m, is_leap_year)\<close>, which stops at
  the first month the table rejects.  The source runs it in \<^verbatim>\<open>get_days_up_to_month\<close> and
  again, inline, in \<^verbatim>\<open>_calculate_total_days\<close>.
\<close>

fun add_month_days :: "bool \<Rightarrow> int list \<Rightarrow> int \<Rightarrow> error + int" where
  "add_month_days leap [] tot = Inr tot"
| "add_month_days leap (m # ms) tot =
     (case get_days_in_month m leap of
        Inl e \<Rightarrow> Inl e
      | Inr d \<Rightarrow> add_month_days leap ms (tot + d))"

definition get_days_up_to_month :: "int \<Rightarrow> bool \<Rightarrow> error + int" where
  "get_days_up_to_month month leap =
     (if month < 1 \<or> month > 12 then Inl (InvalidMonth month)
      else add_month_days leap (range_py 1 month) 0)"

section \<open>Strings\<close>

text \<open>
  A \<open>string\<close> stands for a Python \<^verbatim>\<open>str\<close> whose code points are all below 256, one
  \<open>char\<close> for each code point, so that \<open>length\<close> is \<^verbatim>\<open>len\<close>.  \<open>isspace\<close> holds of
  the code points below 256 that \<^verbatim>\<open>str.strip()\<close> removes: tab, line feed, vertical tab,
  form feed, carriage return, the four separators 28 to 31, space, next line (133) and
  no-break space (160).
\<close>

definition isspace :: "char \<Rightarrow> bool" where
  "isspace c \<longleftrightarrow> (of_char c :: nat) \<in> {9, 10, 11, 12, 13, 28, 29, 30, 31, 32, 133, 160}"

definition strip :: "string \<Rightarrow> string" where
  "strip s = rev (dropWhile isspace (rev (dropWhile isspace s)))"

text \<open>The test \<^verbatim>\<open>not name or not name.strip()\<close>, shared by the validator and \<^verbatim>\<open>PersonName\<close>.\<close>

definition blank :: "string \<Rightarrow> bool" where
  "blank s \<longleftrightarrow> s = [] \<or> strip s = []"

section \<open>Configuration: \<^verbatim>\<open>ValidationConfig\<close>\<close>

record ValidationConfig =
  min_age :: int
  max_age :: int
  min_name_length :: int
  max_name_length :: int
  allowed_name_characters :: string
  strict_name_validation :: bool

text \<open>The field defaults of the dataclass; the apostrophe is the character 39.\<close>

definition default_ValidationConfig :: ValidationConfig where
  "default_ValidationConfig =
     \<lparr> min_age = 0, max_age = 150, min_name_length = 1, max_name_length = 100,
       allowed_name_characters =
         ''abcdefghijklmnopqrstuvwxyzABCDEFGHIJKLMNOPQRSTUVWXYZ -'' @ [CHR 0x27],
       strict_name_validation = False \<rparr>"

section \<open>Validation: \<^verbatim>\<open>InputValidationService\<close>\<close>

definition validate_name :: "ValidationConfig \<Rightarrow> string \<Rightarrow> bool" where
  "validate_name cfg name =
     (if blank name then False
      else if int (length name) < min_name_length cfg then False
      else if int (length name) > max_name_length cfg then False
      else if strict_name_validation cfg
        then list_all (\<lambda>c. c \<in> set (allowed_name_characters cfg)) name
      else True)"

definition validate_age :: "ValidationConfig \<Rightarrow> int \<Rightarrow> bool" where
  "validate_age cfg age \<longleftrightarrow> min_age cfg \<le> age \<and> age \<le> max_age cfg"

definition validate_name_with_exception :: "ValidationConfig \<Rightarrow> string \<Rightarrow> error + unit" where
  "validate_name_with_exception cfg name =
     (if blank name then Inl (NameValidationException name ''empty_value'')
      else if int (length name) < min_name_length cfg
        then Inl (NameValidationException name ''too_short'')
      else if int (length name) > max_name_length cfg
        then Inl (NameValidationException name ''too_long'')
      else Inr ())"

definition validate_age_with_exception :: "ValidationConfig \<Rightarrow> int \<Rightarrow> error + unit" where
  "validate_age_with_exception cfg age =
     (if age < min_age cfg \<or> age > max_age cfg
        then Inl (AgeValidationException age (min_age cfg) (max_age cfg))
      else Inr ())"

section \<open>Value objects\<close>

text \<open>
  A frozen dataclass is a datatype with one constructor.  Python runs \<^verbatim>\<open>__post_init__\<close>
  on every construction, so \<^verbatim>\<open>PersonName(v)\<close> and \<^verbatim>\<open>Age(n)\<close> of the source are the
  checked constructions \<open>new_PersonName\<close> and \<open>new_Age\<close>; the other value objects
  check nothing.
\<close>

datatype PersonName = MkPersonName (name_value: string)

datatype Age = MkAge (years: int)

datatype AgeInMonths = MkAgeInMonths (months: int)

datatype AgeInDays = MkAgeInDays (days: int)

datatype AgeInWeeks = MkAgeInWeeks (weeks: int)

datatype AgeInHours = MkAgeInHours (hours: int)

datatype AgeInMinutes = MkAgeInMinutes (minutes: int)

text \<open>
  A \<^verbatim>\<open>datetime\<close> is held as its \<^verbatim>\<open>"%Y-%m-%d %H:%M:%S"\<close> text, the only thing the code
  reads of it.
\<close>

type_synonym datetime = string

datatype CalculationTimestamp = MkCalculationTimestamp (timestamp: datetime)

definition new_PersonName :: "string \<Rightarrow> error + PersonName" where
  "new_PersonName v = (if blank v then Inl NameEmpty else Inr (MkPersonName v))"

definition new_Age :: "int \<Rightarrow> error + Age" where
  "new_Age n = (if n < 0 then Inl AgeNegative else Inr (MkAge n))"

section \<open>Entities\<close>

text \<open>
  The field \<^verbatim>\<open>id\<close> of a result is \<open>ident\<close> here, and the fields \<^verbatim>\<open>id\<close> and \<^verbatim>\<open>name\<close> of a
  request are \<open>request_id\<close> and \<open>request_name\<close>: \<open>id\<close> is the identity function of
  HOL, and two records cannot share a field name.
\<close>

record AgeCalculationResult =
  ident :: string
  name :: "PersonName option"
  age_years :: "Age option"
  age_months :: "AgeInMonths option"
  age_days :: "AgeInDays option"
  age_weeks :: "AgeInWeeks option"
  age_hours :: "AgeInHours option"
  age_minutes :: "AgeInMinutes option"
  calculation_timestamp :: CalculationTimestamp
  birth_year :: "int option"
  current_year :: "int option"

record CalculationRequest =
  request_id :: string
  request_name :: string
  age_in_years :: int
  include_months :: bool
  include_days :: bool
  include_weeks :: bool
  include_hours :: bool
  include_minutes :: bool
  requested_at :: datetime

text \<open>\<^verbatim>\<open>CalculationRequest.validate\<close>: \<^verbatim>\<open>bool(self.name) and self.age_in_years >= 0\<close>.\<close>

definition validate :: "CalculationRequest \<Rightarrow> bool" where
  "validate request \<longleftrightarrow> request_name request \<noteq> [] \<and> age_in_years request \<ge> 0"

section \<open>The engine: \<^verbatim>\<open>AgeCalculatorServiceImpl\<close>\<close>

text \<open>
  The date source (\<^verbatim>\<open>IDateTimeProvider\<close>) is read once for each of year, month and day;
  the model takes the three answers as a record.  The engine is modelled with its default
  collaborators \<^verbatim>\<open>StandardLeapYearCalculator\<close>, \<^verbatim>\<open>StandardMonthDaysCalculator\<close> and
  \<^verbatim>\<open>InputValidationService\<close>.
\<close>

record DateTimeProvider =
  get_current_year :: int
  get_current_month :: int
  get_current_day :: int

definition calculate_total_days :: "int \<Rightarrow> int \<Rightarrow> int \<Rightarrow> int \<Rightarrow> error + int" where
  "calculate_total_days age_yrs cur_year cur_month cur_day =
     (let birth = cur_year - age_yrs;
          total_days = fold (\<lambda>year tot. tot + get_days_in_year year) (range_py birth cur_year) 0;
          is_current_leap = is_leap_year cur_year
      in case add_month_days is_current_leap (range_py 1 cur_month) total_days of
           Inl e \<Rightarrow> Inl e
         | Inr total_days \<Rightarrow> Inr (total_days + cur_day))"

text \<open>
  \<^verbatim>\<open>calculate_age\<close>; \<open>uid\<close> is the \<^verbatim>\<open>uuid4\<close> text the result draws for its \<^verbatim>\<open>id\<close> and
  \<open>now\<close> the clock reading of \<^verbatim>\<open>CalculationTimestamp.now()\<close>.
\<close>

definition calculate_age ::
  "ValidationConfig \<Rightarrow> DateTimeProvider \<Rightarrow> string \<Rightarrow> datetime \<Rightarrow> string \<Rightarrow> int
     \<Rightarrow> error + AgeCalculationResult" where
  "calculate_age cfg provider uid now nm age_yrs =
     (case validate_name_with_exception cfg nm of
        Inl e \<Rightarrow> Inl e
      | Inr _ \<Rightarrow>
     (case validate_age_with_exception cfg age_yrs of
        Inl e \<Rightarrow> Inl e
      | Inr _ \<Rightarrow>
     (let cur_year = get_current_year provider;
          cur_month = get_current_month provider;
          cur_day = get_current_day provider
      in case calculate_total_days age_yrs cur_year cur_month cur_day of
           Inl e \<Rightarrow> Inl e
         | Inr total_days \<Rightarrow>
     (let total_months = age_yrs * 12 + cur_month;
          total_weeks = total_days div 7;
          total_hours = total_days * 24;
          total_minutes = total_hours * 60;
          birth = cur_year - age_yrs
      in case new_PersonName nm of
           Inl e \<Rightarrow> Inl e
         | Inr pn \<Rightarrow>
     (case new_Age age_yrs of
        Inl e \<Rightarrow> Inl e
      | Inr a \<Rightarrow>
          Inr \<lparr> ident = uid,
                name = Some pn,
                age_years = Some a,
                age_months = Some (MkAgeInMonths total_months),
                age_days = Some (MkAgeInDays total_days),
                age_weeks = Some (MkAgeInWeeks total_weeks),
                age_hours = Some (MkAgeInHours total_hours),
                age_minutes = Some (MkAgeInMinutes total_minutes),
                calculation_timestamp = MkCalculationTimestamp now,
                birth_year = Some birth,
                current_year = Some cur_year \<rparr>)))))"

definition calculate_days_lived :: "DateTimeProvider \<Rightarrow> int \<Rightarrow> error + int" where
  "calculate_days_lived provider age_yrs =
     calculate_total_days age_yrs (get_current_year provider) (get_current_month provider)
       (get_current_day provider)"

definition calculate_months_lived :: "DateTimeProvider \<Rightarrow> int \<Rightarrow> int" where
  "calculate_months_lived provider age_yrs = age_yrs * 12 + get_current_month provider"

section \<open>The flat record: \<^verbatim>\<open>to_dict\<close> and \<^verbatim>\<open>_dict_to_result\<close>\<close>

text \<open>
  The values a flat record holds: \<^verbatim>\<open>None\<close>, an integer or a string.  \<open>truthy\<close> is
  Python's truth value of such a value, which decides every \<^verbatim>\<open>x if data.get(k) else None\<close>.
\<close>

datatype pyval = PNone | PInt int | PStr string

fun truthy :: "pyval \<Rightarrow> bool" where
  "truthy PNone = False"
| "truthy (PInt n) = (n \<noteq> 0)"
| "truthy (PStr s) = (s \<noteq> [])"

type_synonym pydict = "string \<rightharpoonup> pyval"

definition dict_get :: "pydict \<Rightarrow> string \<Rightarrow> pyval" where
  "dict_get d k = (case d k of None \<Rightarrow> PNone | Some v \<Rightarrow> v)"

definition dict_get_default :: "pydict \<Rightarrow> string \<Rightarrow> pyval \<Rightarrow> pyval" where
  "dict_get_default d k dflt = (case d k of None \<Rightarrow> dflt | Some v \<Rightarrow> v)"

definition dict_subscript :: "pydict \<Rightarrow> string \<Rightarrow> error + pyval" where
  "dict_subscript d k = (case d k of None \<Rightarrow> Inl KeyError | Some v \<Rightarrow> Inr v)"

text \<open>
  \<^verbatim>\<open>AgeCalculationResult.to_dict\<close>.  A value object has neither \<^verbatim>\<open>__bool__\<close> nor
  \<^verbatim>\<open>__len__\<close>, so \<^verbatim>\<open>if self.age_years\<close> asks only whether the field is present.
\<close>

definition opt_int :: "int option \<Rightarrow> pyval" where
  "opt_int v = (case v of None \<Rightarrow> PNone | Some n \<Rightarrow> PInt n)"

definition to_dict :: "AgeCalculationResult \<Rightarrow> pydict" where
  "to_dict r = map_of
     [(''id'', PStr (ident r)),
      (''name'', case name r of None \<Rightarrow> PNone | Some n \<Rightarrow> PStr (name_value n)),
      (''age_years'', opt_int (map_option years (age_years r))),
      (''age_months'', opt_int (map_option months (age_months r))),
      (''age_days'', opt_int (map_option days (age_days r))),
      (''age_weeks'', opt_int (map_option weeks (age_weeks r))),
      (''age_hours'', opt_int (map_option hours (age_hours r))),
      (''age_minutes'', opt_int (map_option minutes (age_minutes r))),
      (''calculation_timestamp'', PStr (timestamp (calculation_timestamp r))),
      (''birth_year'', opt_int (birth_year r)),
      (''current_year'', opt_int (current_year r))]"

text \<open>
  The constructors applied to a value read back from a flat record.  \<^verbatim>\<open>PersonName(v)\<close>
  tests \<^verbatim>\<open>not v\<close> and then calls \<^verbatim>\<open>v.strip()\<close>, which an integer does not have;
  \<^verbatim>\<open>Age(v)\<close> compares \<^verbatim>\<open>v < 0\<close>, which only an integer supports.  The other value objects
  and the fields \<^verbatim>\<open>id\<close>, \<^verbatim>\<open>birth_year\<close> and \<^verbatim>\<open>current_year\<close> store what they are given;
  the record of the model is typed, so a value of another type than the field's is
  reported as \<open>TypeError\<close> there (the source would keep it in the field).  No flat
  record written by \<open>to_dict\<close> holds such a value.
\<close>

fun PersonName_of :: "pyval \<Rightarrow> error + PersonName" where
  "PersonName_of (PStr s) = new_PersonName s"
| "PersonName_of (PInt n) = (if n = 0 then Inl NameEmpty else Inl AttributeError)"
| "PersonName_of PNone = Inl NameEmpty"

fun Age_of :: "pyval \<Rightarrow> error + Age" where
  "Age_of (PInt n) = new_Age n"
| "Age_of v = Inl TypeError"

fun int_of :: "pyval \<Rightarrow> error + int" where
  "int_of (PInt n) = Inr n"
| "int_of v = Inl TypeError"

fun opt_int_of :: "pyval \<Rightarrow> error + int option" where
  "opt_int_of PNone = Inr None"
| "opt_int_of (PInt n) = Inr (Some n)"
| "opt_int_of (PStr s) = Inl TypeError"

fun str_of :: "pyval \<Rightarrow> error + string" where
  "str_of (PStr s) = Inr s"
| "str_of v = Inl TypeError"

text \<open>One keyword argument \<^verbatim>\<open>C(data[k]) if data.get(k) else None\<close>.\<close>

definition field_of :: "pydict \<Rightarrow> string \<Rightarrow> (pyval \<Rightarrow> error + 'a) \<Rightarrow> error + 'a option" where
  "field_of d k mk =
     (if truthy (dict_get d k)
      then (case dict_subscript d k of
              Inl e \<Rightarrow> Inl e
            | Inr v \<Rightarrow> (case mk v of Inl e \<Rightarrow> Inl e | Inr x \<Rightarrow> Inr (Some x)))
      else Inr None)"

text \<open>
  \<^verbatim>\<open>FileBasedCalculationRepository._dict_to_result\<close>; the keyword arguments are evaluated
  in the order they are written, and \<open>now\<close> is the clock reading the default
  \<^verbatim>\<open>calculation_timestamp\<close> takes.
\<close>

definition dict_to_result :: "datetime \<Rightarrow> pydict \<Rightarrow> error + AgeCalculationResult" where
  "dict_to_result now d =
     (case str_of (dict_get_default d ''id'' (PStr [])) of Inl e \<Rightarrow> Inl e | Inr i \<Rightarrow>
     (case field_of d ''name'' PersonName_of of Inl e \<Rightarrow> Inl e | Inr n \<Rightarrow>
     (case field_of d ''age_years'' Age_of of Inl e \<Rightarrow> Inl e | Inr y \<Rightarrow>
     (case field_of d ''age_months'' int_of of Inl e \<Rightarrow> Inl e | Inr mo \<Rightarrow>
     (case field_of d ''age_days'' int_of of Inl e \<Rightarrow> Inl e | Inr dy \<Rightarrow>
     (case field_of d ''age_weeks'' int_of of Inl e \<Rightarrow> Inl e | Inr w \<Rightarrow>
     (case field_of d ''age_hours'' int_of of Inl e \<Rightarrow> Inl e | Inr h \<Rightarrow>
     (case field_of d ''age_minutes'' int_of of Inl e \<Rightarrow> Inl e | Inr mi \<Rightarrow>
     (case opt_int_of (dict_get d ''birth_year'') of Inl e \<Rightarrow> Inl e | Inr b \<Rightarrow>
     (case opt_int_of (dict_get d ''current_year'') of Inl e \<Rightarrow> Inl e | Inr c \<Rightarrow>
        Inr \<lparr> ident = i,
              name = n,
              age_years = y,
              age_months = map_option MkAgeInMonths mo,
              age_days = map_option MkAgeInDays dy,
              age_weeks = map_option MkAgeInWeeks w,
              age_hours = map_option MkAgeInHours h,
              age_minutes = map_option MkAgeInMinutes mi,
              calculation_timestamp = MkCalculationTimestamp now,
              birth_year = b,
              current_year = c \<rparr>))))))))))"

section \<open>Properties of the loops\<close>

lemma fold_days: "fold (\<lambda>year tot. tot + f year) ys (acc::int) = acc + sum_list (map f ys)"
  by (induction ys arbitrary: acc) simp_all

lemma month_cases:
  assumes "1 \<le> m" "m \<le> 12"
  shows "m = 1 \<or> m = 2 \<or> m = 3 \<or> m = 4 \<or> m = 5 \<or> m = 6 \<or> m = 7 \<or> m = 8 \<or> m = 9
           \<or> m = 10 \<or> m = 11 \<or> m = (12::int)"
  using assms by arith

lemma get_days_in_month_table:
  "map (\<lambda>m. get_days_in_month m False) [1, 2, 3, 4, 5, 6, 7, 8, 9, 10, 11, 12]
     = map Inr [31, 28, 31, 30, 31, 30, 31, 31, 30, 31, 30, 31]"
  "map (\<lambda>m. get_days_in_month m True) [1, 2, 3, 4, 5, 6, 7, 8, 9, 10, 11, 12]
     = map Inr [31, 29, 31, 30, 31, 30, 31, 31, 30, 31, 30, 31]"
  by (simp_all add: get_days_in_month_def subscript_def DAYS_IN_MONTH_def DAYS_IN_MONTH_LEAP_def)

lemma get_days_in_month_ok:
  assumes "1 \<le> m" "m \<le> 12"
  shows "\<exists>d. get_days_in_month m leap = Inr d \<and> 28 \<le> d \<and> d \<le> 31"
  using month_cases [OF assms]
  by (cases leap)
     (auto simp: get_days_in_month_def subscript_def DAYS_IN_MONTH_def DAYS_IN_MONTH_LEAP_def)

lemma add_month_days_ok:
  assumes "\<forall>m\<in>set ms. 1 \<le> m \<and> m \<le> 12"
  shows "\<exists>ds. map (\<lambda>m. get_days_in_month m leap) ms = map Inr ds
            \<and> (\<forall>tot. add_month_days leap ms tot = Inr (tot + sum_list ds))"
  using assms
proof (induction ms)
  case Nil
  then show ?case by simp
next
  case (Cons m ms)
  from Cons.prems obtain d where d: "get_days_in_month m leap = Inr d"
    using get_days_in_month_ok [of m leap] by auto
  from Cons.prems have "\<forall>m\<in>set ms. 1 \<le> m \<and> m \<le> 12" by simp
  from Cons.IH [OF this] obtain ds where
    ds: "map (\<lambda>m. get_days_in_month m leap) ms = map Inr ds"
        "\<And>tot. add_month_days leap ms tot = Inr (tot + sum_list ds)" by blast
  have "map (\<lambda>m. get_days_in_month m leap) (m # ms) = map Inr (d # ds)"
    using d ds(1) by simp
  moreover have "\<forall>tot. add_month_days leap (m # ms) tot = Inr (tot + sum_list (d # ds))"
    using d ds(2) by (simp add: add.assoc)
  ultimately show ?case by blast
qed

lemma range_py_months: "month \<le> 13 \<Longrightarrow> \<forall>m\<in>set (range_py 1 month). 1 \<le> m \<and> m \<le> 12"
  by (auto simp: range_py_def)

lemma months_loop:
  assumes "month \<le> 13"
  shows "\<exists>ds. map (\<lambda>m. get_days_in_month m leap) [1..month - 1] = map Inr ds
            \<and> (\<forall>tot. add_month_days leap (range_py 1 month) tot = Inr (tot + sum_list ds))"
  using add_month_days_ok [OF range_py_months [OF assms], of leap]
  by (simp add: range_py_def)

lemma get_days_up_to_month_ok:
  assumes "1 \<le> month" "month \<le> 12"
  shows "\<exists>ds. map (\<lambda>m. get_days_in_month m leap) [1..month - 1] = map Inr ds
            \<and> get_days_up_to_month month leap = Inr (sum_list ds)"
proof -
  from assms have "month \<le> 13" by simp
  from months_loop [OF this, of leap] show ?thesis
    using assms by (auto simp: get_days_up_to_month_def)
qed

lemma years_loop:
  "fold (\<lambda>year tot. tot + get_days_in_year year) (range_py (year - age) year) 0
     = (\<Sum>y = year - age..year - 1. get_days_in_year y)"
  by (simp add: fold_days range_py_def interv_sum_list_conv_sum_set_int set_upto)

lemma calculate_total_days_eq:
  assumes "1 \<le> month" "month \<le> 12"
  shows "\<exists>before. get_days_up_to_month month (is_leap_year year) = Inr before
           \<and> calculate_total_days age year month day
               = Inr ((\<Sum>y = year - age..year - 1. get_days_in_year y) + before + day)"
proof -
  from assms have "month \<le> 13" by simp
  from months_loop [OF this, of "is_leap_year year"] obtain ds where
    ds: "\<And>tot. add_month_days (is_leap_year year) (range_py 1 month) tot
                = Inr (tot + sum_list ds)" by blast
  have "get_days_up_to_month month (is_leap_year year) = Inr (sum_list ds)"
    using assms ds [of 0] by (simp add: get_days_up_to_month_def)
  moreover have "calculate_total_days age year month day
      = Inr ((\<Sum>y = year - age..year - 1. get_days_in_year y) + sum_list ds + day)"
    by (simp add: calculate_total_days_def years_loop ds)
  ultimately show ?thesis by blast
qed

lemma years_loop_step:
  assumes "0 \<le> age"
  shows "(\<Sum>y = year - (age + 1)..year - 1. get_days_in_year y)
           = get_days_in_year (year - age - 1) + (\<Sum>y = year - age..year - 1. get_days_in_year y)"
proof -
  have "[year - (age + 1)..year - 1] = (year - age - 1) # [year - age..year - 1]"
    using assms by (subst upto_rec1) (simp_all add: algebra_simps)
  then have "sum_list (map get_days_in_year [year - (age + 1)..year - 1])
      = get_days_in_year (year - age - 1) + sum_list (map get_days_in_year [year - age..year - 1])"
    by simp
  then show ?thesis
    by (simp add: interv_sum_list_conv_sum_set_int set_upto)
qed

lemma get_days_in_year_pos: "0 < get_days_in_year y"
  by (simp add: get_days_in_year_def)

section \<open>Properties of the string tests\<close>

lemma dropWhile_all: "(\<forall>x\<in>set (dropWhile P xs). P x) \<longleftrightarrow> (\<forall>x\<in>set xs. P x)"
  by (induction xs) auto

lemma strip_Nil_iff: "strip s = [] \<longleftrightarrow> list_all isspace s"
  unfolding strip_def
  by (simp add: dropWhile_eq_Nil_conv dropWhile_all list_all_iff)

lemma blank_iff: "blank s \<longleftrightarrow> list_all isspace s"
  unfolding blank_def by (auto simp: strip_Nil_iff)

lemma blank_strip: "blank s \<longleftrightarrow> strip s = []"
  by (simp add: blank_iff strip_Nil_iff)

section \<open>Properties of validation and of the engine\<close>

text \<open>
  What the boolean validators accept, the raising validators let through; for the name
  the converse fails in strict mode, which only \<open>validate_name\<close> looks at.
\<close>

lemma validate_name_accepts:
  "validate_name cfg nm \<Longrightarrow> validate_name_with_exception cfg nm = Inr ()"
  by (simp add: validate_name_def validate_name_with_exception_def split: if_splits)

lemma validate_age_accepts:
  "validate_age cfg age \<longleftrightarrow> validate_age_with_exception cfg age = Inr ()"
  by (auto simp: validate_age_def validate_age_with_exception_def)

text \<open>The default allowed characters, by their code points.\<close>

lemma default_allowed:
  "c \<in> set (allowed_name_characters default_ValidationConfig) \<longleftrightarrow>
     (of_char c :: nat) \<in> {97..122} \<union> {65..90} \<union> {32, 45, 39}"
  by (cases c) (simp add: default_ValidationConfig_def)

text \<open>A result of \<open>calculate_age\<close> is the record of the source's last statement.\<close>

lemma calculate_age_fields:
  assumes "calculate_age cfg p uid now nm age = Inr r"
  shows "\<exists>D. calculate_total_days age (get_current_year p) (get_current_month p)
               (get_current_day p) = Inr D
           \<and> validate_name_with_exception cfg nm = Inr ()
           \<and> validate_age_with_exception cfg age = Inr ()
           \<and> new_PersonName nm = Inr (MkPersonName nm)
           \<and> new_Age age = Inr (MkAge age)
           \<and> r = \<lparr> ident = uid,
                   name = Some (MkPersonName nm),
                   age_years = Some (MkAge age),
                   age_months = Some (MkAgeInMonths (age * 12 + get_current_month p)),
                   age_days = Some (MkAgeInDays D),
                   age_weeks = Some (MkAgeInWeeks (D div 7)),
                   age_hours = Some (MkAgeInHours (D * 24)),
                   age_minutes = Some (MkAgeInMinutes (D * 24 * 60)),
                   calculation_timestamp = MkCalculationTimestamp now,
                   birth_year = Some (get_current_year p - age),
                   current_year = Some (get_current_year p) \<rparr>"
  using assms
  by (auto simp: calculate_age_def Let_def new_PersonName_def new_Age_def
           split: sum.splits if_splits)

text \<open>The scenario of 2024-03-15, a person of 30 named Ada, evaluated.\<close>

lemma ada: "calculate_age default_ValidationConfig
            \<lparr>get_current_year = 2024, get_current_month = 3, get_current_day = 15\<rparr>
            ''u'' ''t'' ''Ada'' 30
          = Inr \<lparr> ident = ''u'',
                   name = Some (MkPersonName ''Ada''),
                   age_years = Some (MkAge 30),
                   age_months = Some (MkAgeInMonths 363),
                   age_days = Some (MkAgeInDays 11032),
                   age_weeks = Some (MkAgeInWeeks 1576),
                   age_hours = Some (MkAgeInHours 264768),
                   age_minutes = Some (MkAgeInMinutes 15886080),
                   calculation_timestamp = MkCalculationTimestamp ''t'',
                   birth_year = Some 1994,
                   current_year = Some 2024 \<rparr>"
  by code_simp

section \<open>Properties of the value objects and of the flat record\<close>

lemma new_PersonName_Inr: "new_PersonName s = Inr pn \<Longrightarrow> strip (name_value pn) \<noteq> []"
  by (auto simp: new_PersonName_def blank_strip split: if_splits)

lemma new_Age_Inr: "new_Age n = Inr a \<Longrightarrow> 0 \<le> years a"
  by (auto simp: new_Age_def split: if_splits)

lemma PersonName_of_Inr: "PersonName_of v = Inr pn \<Longrightarrow> strip (name_value pn) \<noteq> []"
  by (cases v) (auto dest: new_PersonName_Inr split: if_splits)

lemma Age_of_Inr: "Age_of v = Inr a \<Longrightarrow> 0 \<le> years a"
  by (cases v) (auto dest: new_Age_Inr)

lemma field_of_Some: "field_of d k mk = Inr (Some x) \<Longrightarrow> \<exists>v. mk v = Inr x"
  by (auto simp: field_of_def split: if_splits sum.splits)

lemma dict_to_result_fields:
  assumes "dict_to_result now d = Inr r"
  shows "field_of d ''name'' PersonName_of = Inr (name r)
       \<and> field_of d ''age_years'' Age_of = Inr (age_years r)"
  using assms by (auto simp: dict_to_result_def split: sum.splits)

lemma dict_to_result_invariant:
  assumes "dict_to_result now d = Inr r"
  shows "(\<forall>pn. name r = Some pn \<longrightarrow> strip (name_value pn) \<noteq> [])
       \<and> (\<forall>a. age_years r = Some a \<longrightarrow> 0 \<le> years a)"
  using dict_to_result_fields [OF assms]
  by (metis field_of_Some PersonName_of_Inr Age_of_Inr)

lemma calculate_age_invariant:
  assumes "calculate_age cfg p uid now nm age = Inr r"
  shows "(\<forall>pn. name r = Some pn \<longrightarrow> strip (name_value pn) \<noteq> [])
       \<and> (\<forall>a. age_years r = Some a \<longrightarrow> 0 \<le> years a)"
proof -
  from calculate_age_fields [OF assms] have
    "new_PersonName nm = Inr (MkPersonName nm)" "new_Age age = Inr (MkAge age)"
    "name r = Some (MkPersonName nm)" "age_years r = Some (MkAge age)"
    by auto
  then show ?thesis
    using new_PersonName_Inr [of nm "MkPersonName nm"] new_Age_Inr [of age "MkAge age"]
    by simp
qed

lemma ada_dict:
  "dict_to_result ''t''
     (map_of [(''id'', PStr ''u''), (''name'', PStr ''Ada''), (''age_years'', PInt 30)])
   = Inr \<lparr> ident = ''u'', name = Some (MkPersonName ''Ada''), age_years = Some (MkAge 30),
            age_months = None, age_days = None, age_weeks = None, age_hours = None,
            age_minutes = None, calculation_timestamp = MkCalculationTimestamp ''t'',
            birth_year = None, current_year = None \<rparr>"
  "dict_to_result ''t'' (map_of [(''id'', PStr ''u''), (''name'', PStr ''  '')]) = Inl NameEmpty"
  "dict_to_result ''t'' (map_of [(''id'', PStr ''u''), (''age_years'', PInt (- 1))])
     = Inl AgeNegative"
  by code_simp+

text \<open>
  Reading a result back from its flat record changes nothing but the timestamp, which
  \<^verbatim>\<open>_dict_to_result\<close> does not read, as long as no numeric field is zero: that is the
  case for an age of at least one year on a date with a month from 1 to 12 and a day of
  at least 1.
\<close>

lemma round_trip_nonzero:
  assumes "calculate_age cfg p uid now nm age = Inr r"
    and "0 < age" "1 \<le> get_current_month p" "get_current_month p \<le> 12"
    and "1 \<le> get_current_day p"
  shows "dict_to_result now' (to_dict r)
           = Inr (r\<lparr>calculation_timestamp := MkCalculationTimestamp now'\<rparr>)"
proof -
  from calculate_age_fields [OF assms(1)] obtain D where
    D: "calculate_total_days age (get_current_year p) (get_current_month p)
          (get_current_day p) = Inr D"
    and nm: "new_PersonName nm = Inr (MkPersonName nm)"
    and ag: "new_Age age = Inr (MkAge age)"
    and r: "r = \<lparr> ident = uid,
                   name = Some (MkPersonName nm),
                   age_years = Some (MkAge age),
                   age_months = Some (MkAgeInMonths (age * 12 + get_current_month p)),
                   age_days = Some (MkAgeInDays D),
                   age_weeks = Some (MkAgeInWeeks (D div 7)),
                   age_hours = Some (MkAgeInHours (D * 24)),
                   age_minutes = Some (MkAgeInMinutes (D * 24 * 60)),
                   calculation_timestamp = MkCalculationTimestamp now,
                   birth_year = Some (get_current_year p - age),
                   current_year = Some (get_current_year p) \<rparr>"
    by blast
  from calculate_total_days_eq [OF assms(3,4), of "get_current_year p" age "get_current_day p"] D
  obtain before where
    b: "get_days_up_to_month (get_current_month p) (is_leap_year (get_current_year p)) = Inr before"
    and Deq: "D = (\<Sum>y = get_current_year p - age..get_current_year p - 1. get_days_in_year y)
                  + before + get_current_day p"
    by auto
  from get_days_up_to_month_ok [OF assms(3,4), of "is_leap_year (get_current_year p)"] b
  obtain ds where ds: "map (\<lambda>m. get_days_in_month m (is_leap_year (get_current_year p)))
                         [1..get_current_month p - 1] = map Inr ds"
    "before = sum_list ds" by auto
  have "\<forall>d\<in>set ds. 0 \<le> d"
  proof
    fix d assume "d \<in> set ds"
    then have "Inr d \<in> set (map (\<lambda>m. get_days_in_month m (is_leap_year (get_current_year p)))
                         [1..get_current_month p - 1])"
      using ds(1) by simp
    then obtain m where "1 \<le> m" "m \<le> 12"
      "get_days_in_month m (is_leap_year (get_current_year p)) = Inr d"
      using assms(4) by auto
    then show "0 \<le> d"
      using get_days_in_month_ok [of m "is_leap_year (get_current_year p)"] by auto
  qed
  then have "0 \<le> before"
    unfolding ds(2) by (simp add: sum_list_nonneg)
  moreover have "365 \<le> (\<Sum>y = get_current_year p - age..get_current_year p - 1. get_days_in_year y)"
  proof -
    have "(\<Sum>y = get_current_year p - age..get_current_year p - 1. 365)
            \<le> (\<Sum>y = get_current_year p - age..get_current_year p - 1. get_days_in_year y)"
      by (rule sum_mono) (simp add: get_days_in_year_def)
    then show ?thesis
      using assms(2) by simp
  qed
  ultimately have "7 \<le> D"
    using assms(5) Deq by simp
  then have nz: "D \<noteq> 0" "D div 7 \<noteq> 0" "D * 24 \<noteq> 0" "D * 24 * 60 \<noteq> 0"
    by (auto simp: div_eq_0_iff)
  have nz2: "age \<noteq> 0" "age * 12 + get_current_month p \<noteq> 0"
    using assms(2,3) by auto
  from nm have nb: "nm \<noteq> []" "\<not> blank nm"
    by (auto simp: new_PersonName_def blank_def split: if_splits)
  show ?thesis
    using nz nz2 nb nm ag
    by (simp add: r dict_to_result_def to_dict_def field_of_def dict_get_def
          dict_get_default_def dict_subscript_def opt_int_def)
qed

section \<open>The leap-year rule\<close>

text \<open>
  Claim C5.  For every integer year, the years at or below zero among them, \<open>is_leap_year\<close>
  holds exactly when the year is divisible by 4 and either not divisible by 100 or
  divisible by 400; \<open>get_days_in_year\<close> is 366 exactly for a leap year and 365 exactly
  for any other year.  Both are total functions of the year: no branch of them raises.
\<close>

theorem leap_year_rule:
  "(is_leap_year y \<longleftrightarrow> 4 dvd y \<and> (\<not> 100 dvd y \<or> 400 dvd y))
   \<and> (get_days_in_year y = 366 \<longleftrightarrow> is_leap_year y)
   \<and> (get_days_in_year y = 365 \<longleftrightarrow> \<not> is_leap_year y)"
  by (simp add: is_leap_year_def get_days_in_year_def mod_eq_0_iff_dvd)

theorem leap_year_rule_witness:
  "is_leap_year 2000 \<and> \<not> is_leap_year 1900 \<and> is_leap_year 2024 \<and> \<not> is_leap_year 2023
   \<and> is_leap_year 0 \<and> is_leap_year (- 4) \<and> \<not> is_leap_year (- 100)
   \<and> get_days_in_year (- 400) = 366 \<and> get_days_in_year (- 1) = 365"
  using leap_year_rule [of 2000] leap_year_rule [of 1900] leap_year_rule [of 2024]
    leap_year_rule [of 2023] leap_year_rule [of 0] leap_year_rule [of "- 4"]
    leap_year_rule [of "- 100"] leap_year_rule [of "- 400"] leap_year_rule [of "- 1"]
  by simp

section \<open>The month table\<close>

text \<open>
  Claim C6.  Outside 1 to 12 both \<open>get_days_in_month\<close> and \<open>get_days_up_to_month\<close>
  raise the invalid-month error carrying the month; inside, both return: the first a
  value of the fixed table (31, 28 or 29 in a leap year, 31, 30, 31, 30, 31, 31, 30,
  31, 30, 31), the second the sum of the table values of the months 1 to \<open>month - 1\<close>.
  So the days before January are 0, and the days before March are 60 in a leap year and
  59 otherwise.
\<close>

theorem month_day_table:
  "(month < 1 \<or> 12 < month \<longrightarrow>
      get_days_in_month month leap = Inl (InvalidMonth month)
      \<and> get_days_up_to_month month leap = Inl (InvalidMonth month))
   \<and> (1 \<le> month \<and> month \<le> 12 \<longrightarrow>
      (\<exists>d. get_days_in_month month leap = Inr d)
      \<and> (\<exists>ds. map (\<lambda>m. get_days_in_month m leap) [1..month - 1] = map Inr ds
             \<and> get_days_up_to_month month leap = Inr (sum_list ds)))
   \<and> map (\<lambda>m. get_days_in_month m False) [1, 2, 3, 4, 5, 6, 7, 8, 9, 10, 11, 12]
       = map Inr [31, 28, 31, 30, 31, 30, 31, 31, 30, 31, 30, 31]
   \<and> map (\<lambda>m. get_days_in_month m True) [1, 2, 3, 4, 5, 6, 7, 8, 9, 10, 11, 12]
       = map Inr [31, 29, 31, 30, 31, 30, 31, 31, 30, 31, 30, 31]
   \<and> get_days_up_to_month 1 leap = Inr 0
   \<and> get_days_up_to_month 3 True = Inr 60
   \<and> get_days_up_to_month 3 False = Inr 59"
proof -
  have outside: "month < 1 \<or> 12 < month \<longrightarrow>
      get_days_in_month month leap = Inl (InvalidMonth month)
      \<and> get_days_up_to_month month leap = Inl (InvalidMonth month)"
    by (auto simp: get_days_in_month_def get_days_up_to_month_def)
  have inside: "1 \<le> month \<and> month \<le> 12 \<longrightarrow>
      (\<exists>d. get_days_in_month month leap = Inr d)
      \<and> (\<exists>ds. map (\<lambda>m. get_days_in_month m leap) [1..month - 1] = map Inr ds
             \<and> get_days_up_to_month month leap = Inr (sum_list ds))"
    using get_days_in_month_ok [of month leap] get_days_up_to_month_ok [of month leap]
    by blast
  have one: "get_days_up_to_month 1 leap = Inr 0"
    by (simp add: get_days_up_to_month_def range_py_def)
  have three: "get_days_up_to_month 3 True = Inr 60" "get_days_up_to_month 3 False = Inr 59"
    by code_simp+
  show ?thesis
    using outside inside one three get_days_in_month_table by blast
qed

theorem month_day_table_witness:
  "(1::int) \<le> 12 \<and> (12::int) \<le> 12
   \<and> (\<exists>d. get_days_in_month 12 False = Inr d)
   \<and> (\<exists>ds. map (\<lambda>m. get_days_in_month m False) [1..12 - 1] = map Inr ds
          \<and> get_days_up_to_month 12 False = Inr (sum_list ds))
   \<and> get_days_up_to_month 12 False = Inr 334
   \<and> (12::int) < 13
   \<and> get_days_in_month 13 False = Inl (InvalidMonth 13)
   \<and> (0::int) < 1
   \<and> get_days_up_to_month 0 True = Inl (InvalidMonth 0)"
proof -
  have "get_days_up_to_month 12 False = Inr 334"
    by code_simp
  then show ?thesis
    using month_day_table [of 12 False] month_day_table [of 13 False]
      month_day_table [of 0 True]
    by simp
qed

section \<open>Total days and the derived units\<close>

text \<open>
  Claim C1.  On a date whose month is from 1 to 12, and for every age (so for every age
  from 0 on, where the sum over the years is empty at 0), the total day count \<open>D\<close> of
  the engine is the sum of \<open>get_days_in_year\<close> over the years from the birth year
  \<open>year - age\<close> to \<open>year - 1\<close>, plus the days before the current month under the
  current year's leap flag, plus the day of the month.  \<open>calculate_days_lived\<close> returns
  that \<open>D\<close>, \<open>calculate_months_lived\<close> returns \<open>age * 12 + month\<close>, and every result
  \<open>calculate_age\<close> returns carries months \<open>age * 12 + month\<close>, days \<open>D\<close>, weeks
  \<open>D div 7\<close> (the floor quotient), hours \<open>D * 24\<close> and minutes \<open>D * 24 * 60\<close>.
\<close>

theorem total_days_and_units:
  assumes "1 \<le> get_current_month p" "get_current_month p \<le> 12"
  shows "\<exists>before D.
           get_days_up_to_month (get_current_month p) (is_leap_year (get_current_year p))
             = Inr before
         \<and> D = (\<Sum>y = get_current_year p - age..get_current_year p - 1. get_days_in_year y)
                 + before + get_current_day p
         \<and> calculate_total_days age (get_current_year p) (get_current_month p)
              (get_current_day p) = Inr D
         \<and> calculate_days_lived p age = Inr D
         \<and> calculate_months_lived p age = age * 12 + get_current_month p
         \<and> (\<forall>cfg uid now nm r. calculate_age cfg p uid now nm age = Inr r \<longrightarrow>
               age_months r = Some (MkAgeInMonths (age * 12 + get_current_month p))
             \<and> age_days r = Some (MkAgeInDays D)
             \<and> age_weeks r = Some (MkAgeInWeeks (D div 7))
             \<and> age_hours r = Some (MkAgeInHours (D * 24))
             \<and> age_minutes r = Some (MkAgeInMinutes (D * 24 * 60)))"
proof -
  from calculate_total_days_eq [OF assms, of "get_current_year p" age "get_current_day p"]
  obtain before where
    b: "get_days_up_to_month (get_current_month p) (is_leap_year (get_current_year p))
          = Inr before"
    and t: "calculate_total_days age (get_current_year p) (get_current_month p)
              (get_current_day p)
            = Inr ((\<Sum>y = get_current_year p - age..get_current_year p - 1. get_days_in_year y)
                   + before + get_current_day p)"
    by blast
  define D where
    "D = (\<Sum>y = get_current_year p - age..get_current_year p - 1. get_days_in_year y)
           + before + get_current_day p"
  have units: "age_months r = Some (MkAgeInMonths (age * 12 + get_current_month p))
             \<and> age_days r = Some (MkAgeInDays D)
             \<and> age_weeks r = Some (MkAgeInWeeks (D div 7))
             \<and> age_hours r = Some (MkAgeInHours (D * 24))
             \<and> age_minutes r = Some (MkAgeInMinutes (D * 24 * 60))"
    if "calculate_age cfg p uid now nm age = Inr r" for cfg uid now nm r
    using calculate_age_fields [OF that] t by (auto simp: D_def)
  have "calculate_days_lived p age = Inr D"
    using t by (simp add: calculate_days_lived_def D_def)
  moreover have "calculate_months_lived p age = age * 12 + get_current_month p"
    by (simp add: calculate_months_lived_def)
  ultimately show ?thesis
    using b t units unfolding D_def by blast
qed

theorem total_days_and_units_witness:
  "(1::int) \<le> 3 \<and> (3::int) \<le> 12
   \<and> get_days_up_to_month 3 (is_leap_year 2024) = Inr 60
   \<and> (\<Sum>y = 2024 - 30..2024 - 1. get_days_in_year y) = 10957
   \<and> calculate_total_days 30 2024 3 15 = Inr 11032
   \<and> calculate_days_lived
        \<lparr>get_current_year = 2024, get_current_month = 3, get_current_day = 15\<rparr> 30
      = Inr 11032
   \<and> calculate_months_lived
        \<lparr>get_current_year = 2024, get_current_month = 3, get_current_day = 15\<rparr> 30 = 363
   \<and> (\<exists>r. calculate_age default_ValidationConfig
              \<lparr>get_current_year = 2024, get_current_month = 3, get_current_day = 15\<rparr>
              ''u'' ''t'' ''Ada'' 30 = Inr r
          \<and> age_months r = Some (MkAgeInMonths 363)
          \<and> age_days r = Some (MkAgeInDays 11032)
          \<and> age_weeks r = Some (MkAgeInWeeks 1576)
          \<and> age_hours r = Some (MkAgeInHours 264768)
          \<and> age_minutes r = Some (MkAgeInMinutes 15886080))"
proof -
  let ?p = "\<lparr>get_current_year = 2024, get_current_month = 3, get_current_day = 15\<rparr>"
  have before: "get_days_up_to_month 3 (is_leap_year 2024) = Inr 60"
    by code_simp
  have total: "calculate_total_days 30 2024 3 15 = Inr 11032"
    by code_simp
  have run: "\<exists>r. calculate_age default_ValidationConfig ?p ''u'' ''t'' ''Ada'' 30 = Inr r"
    using ada by simp
  from total_days_and_units [of ?p 30] obtain b D where
    h: "get_days_up_to_month 3 (is_leap_year 2024) = Inr b"
       "D = (\<Sum>y = 2024 - 30..2024 - 1. get_days_in_year y) + b + 15"
       "calculate_total_days 30 2024 3 15 = Inr D"
       "calculate_days_lived ?p 30 = Inr D"
       "calculate_months_lived ?p 30 = 30 * 12 + 3"
       "\<And>cfg uid now nm r. calculate_age cfg ?p uid now nm 30 = Inr r \<Longrightarrow>
               age_months r = Some (MkAgeInMonths (30 * 12 + 3))
             \<and> age_days r = Some (MkAgeInDays D)
             \<and> age_weeks r = Some (MkAgeInWeeks (D div 7))
             \<and> age_hours r = Some (MkAgeInHours (D * 24))
             \<and> age_minutes r = Some (MkAgeInMinutes (D * 24 * 60))"
    by auto
  from h(1) before have b: "b = 60" by simp
  from h(3) total have D: "D = 11032" by simp
  from run obtain r where
    r: "calculate_age default_ValidationConfig ?p ''u'' ''t'' ''Ada'' 30 = Inr r" by blast
  from h(6) [OF r] have "age_months r = Some (MkAgeInMonths 363)
          \<and> age_days r = Some (MkAgeInDays 11032)
          \<and> age_weeks r = Some (MkAgeInWeeks 1576)
          \<and> age_hours r = Some (MkAgeInHours 264768)
          \<and> age_minutes r = Some (MkAgeInMinutes 15886080)"
    by (simp add: D)
  with r have ex: "\<exists>r. calculate_age default_ValidationConfig ?p ''u'' ''t'' ''Ada'' 30 = Inr r
          \<and> age_months r = Some (MkAgeInMonths 363)
          \<and> age_days r = Some (MkAgeInDays 11032)
          \<and> age_weeks r = Some (MkAgeInWeeks 1576)
          \<and> age_hours r = Some (MkAgeInHours 264768)
          \<and> age_minutes r = Some (MkAgeInMinutes 15886080)" by blast
  have "(\<Sum>y = 2024 - 30..2024 - 1. get_days_in_year y) = 10957"
    using h(2) b D by simp
  then show ?thesis
    using before total h(4) h(5) D ex by simp
qed

section \<open>Monotonicity of the days lived\<close>

text \<open>
  Claim C8.  On a fixed date with a month from 1 to 12, and for every age \<open>a\<close> from 0 on,
  \<open>calculate_days_lived\<close> returns for both \<open>a\<close> and \<open>a + 1\<close>, and the days lived at
  \<open>a + 1\<close> are strictly more than the days lived at \<open>a\<close>.
\<close>

theorem days_lived_strictly_increasing:
  assumes "0 \<le> a" "1 \<le> get_current_month p" "get_current_month p \<le> 12"
  shows "\<exists>d d'. calculate_days_lived p a = Inr d
            \<and> calculate_days_lived p (a + 1) = Inr d' \<and> d < d'"
proof -
  let ?y = "get_current_year p"
  from calculate_total_days_eq [OF assms(2,3), of ?y] obtain before where
    t: "\<And>age. calculate_total_days age ?y (get_current_month p) (get_current_day p)
            = Inr ((\<Sum>y = ?y - age..?y - 1. get_days_in_year y)
                   + before + get_current_day p)"
    by (metis sum.inject(2))
  have "(\<Sum>y = ?y - a..?y - 1. get_days_in_year y)
          < (\<Sum>y = ?y - (a + 1)..?y - 1. get_days_in_year y)"
    using years_loop_step [OF assms(1), of ?y] get_days_in_year_pos [of "?y - a - 1"]
    by simp
  then show ?thesis
    by (simp add: calculate_days_lived_def t)
qed

theorem days_lived_strictly_increasing_witness:
  "(0::int) \<le> 30 \<and> (1::int) \<le> 3 \<and> (3::int) \<le> 12
   \<and> calculate_days_lived
        \<lparr>get_current_year = 2024, get_current_month = 3, get_current_day = 15\<rparr> 30
      = Inr 11032
   \<and> calculate_days_lived
        \<lparr>get_current_year = 2024, get_current_month = 3, get_current_day = 15\<rparr> (30 + 1)
      = Inr 11397
   \<and> (11032::int) < 11397"
proof -
  have "calculate_days_lived
        \<lparr>get_current_year = 2024, get_current_month = 3, get_current_day = 15\<rparr> 30
      = Inr 11032"
    by code_simp
  moreover have "calculate_days_lived
        \<lparr>get_current_year = 2024, get_current_month = 3, get_current_day = 15\<rparr> (30 + 1)
      = Inr 11397"
    by code_simp
  ultimately show ?thesis
    using days_lived_strictly_increasing
      [of 30 "\<lparr>get_current_year = 2024, get_current_month = 3, get_current_day = 15\<rparr>"]
    by simp
qed

section \<open>Success of the calculation after validation\<close>

text \<open>
  Claim C3, as stated, fails: a configuration may set a negative lower age bound, with
  both its ranges in order.  Under the bounds -5 to 150 the age -3 passes both the
  boolean and the raising age validation, and \<open>calculate_age\<close> then raises the
  \<^verbatim>\<open>ValueError\<close> of \<^verbatim>\<open>Age.__post_init__\<close>, which refuses every negative age.
\<close>

theorem calculate_age_negative_bound_counterexample:
  "min_age (default_ValidationConfig\<lparr>min_age := - 5\<rparr>)
     \<le> max_age (default_ValidationConfig\<lparr>min_age := - 5\<rparr>)
   \<and> min_name_length (default_ValidationConfig\<lparr>min_age := - 5\<rparr>)
     \<le> max_name_length (default_ValidationConfig\<lparr>min_age := - 5\<rparr>)
   \<and> validate_name (default_ValidationConfig\<lparr>min_age := - 5\<rparr>) ''Ada''
   \<and> validate_age (default_ValidationConfig\<lparr>min_age := - 5\<rparr>) (- 3)
   \<and> validate_name_with_exception (default_ValidationConfig\<lparr>min_age := - 5\<rparr>) ''Ada'' = Inr ()
   \<and> validate_age_with_exception (default_ValidationConfig\<lparr>min_age := - 5\<rparr>) (- 3) = Inr ()
   \<and> calculate_age (default_ValidationConfig\<lparr>min_age := - 5\<rparr>)
        \<lparr>get_current_year = 2024, get_current_month = 3, get_current_day = 15\<rparr>
        ''u'' ''t'' ''Ada'' (- 3) = Inl AgeNegative"
  by code_simp

text \<open>
  Claim C3, amended.  For every configuration whose lower age bound is not negative, every
  name and age that the validation of \<open>calculate_age\<close> lets through, and every date
  with a month from 1 to 12, \<open>calculate_age\<close> returns a result.  (A name and an age
  accepted by \<open>validate_name\<close> and \<open>validate_age\<close> are let through, by
  \<open>validate_name_accepts\<close> and \<open>validate_age_accepts\<close>.)
\<close>

theorem calculate_age_succeeds:
  assumes "0 \<le> min_age cfg"
    and "validate_name_with_exception cfg nm = Inr ()"
    and "validate_age_with_exception cfg age = Inr ()"
    and "1 \<le> get_current_month p" "get_current_month p \<le> 12"
  shows "\<exists>r. calculate_age cfg p uid now nm age = Inr r"
proof -
  from calculate_total_days_eq [OF assms(4,5)] obtain D where
    D: "calculate_total_days age (get_current_year p) (get_current_month p)
          (get_current_day p) = Inr D"
    by blast
  from assms(2) have "\<not> blank nm"
    by (auto simp: validate_name_with_exception_def split: if_splits)
  then have n: "new_PersonName nm = Inr (MkPersonName nm)"
    by (simp add: new_PersonName_def)
  from assms(1,3) have "0 \<le> age"
    by (auto simp: validate_age_with_exception_def split: if_splits)
  then have a: "new_Age age = Inr (MkAge age)"
    by (simp add: new_Age_def)
  show ?thesis
    by (simp add: calculate_age_def assms(2,3) D n a Let_def)
qed

theorem calculate_age_succeeds_witness:
  "0 \<le> min_age default_ValidationConfig
   \<and> validate_name_with_exception default_ValidationConfig ''Ada'' = Inr ()
   \<and> validate_age_with_exception default_ValidationConfig 30 = Inr ()
   \<and> (1::int) \<le> 3 \<and> (3::int) \<le> 12
   \<and> (\<exists>r. calculate_age default_ValidationConfig
              \<lparr>get_current_year = 2024, get_current_month = 3, get_current_day = 15\<rparr>
              ''u'' ''t'' ''Ada'' 30 = Inr r)"
proof -
  have h: "0 \<le> min_age default_ValidationConfig"
    "validate_name_with_exception default_ValidationConfig ''Ada'' = Inr ()"
    "validate_age_with_exception default_ValidationConfig 30 = Inr ()"
    by code_simp+
  show ?thesis
    using h calculate_age_succeeds [OF h,
        of "\<lparr>get_current_year = 2024, get_current_month = 3, get_current_day = 15\<rparr>"
           "''u''" "''t''"]
    by simp
qed

section \<open>Validation errors at the boundary\<close>

text \<open>
  Claim C4.  Whatever the date source reports (even a month no calendar has),
  \<open>calculate_age\<close> returns the validation error and no result: for an empty or
  whitespace-only name the name error with reason \<open>empty_value\<close>; for another name
  shorter than the lower length bound the reason \<open>too_short\<close>; for another name within
  the lower bound and longer than the upper bound the reason \<open>too_long\<close>; and, the name
  check coming first, for a name that passes it and an age outside the age bounds the age
  error carrying the age and both bounds.  With the default bounds 0 to 150 the ages -1
  and 151 give that age error with the bounds 0 and 150.
\<close>

theorem validation_errors_at_boundary:
  "(list_all isspace nm \<longrightarrow>
      calculate_age cfg p uid now nm age = Inl (NameValidationException nm ''empty_value''))
   \<and> (\<not> list_all isspace nm \<and> int (length nm) < min_name_length cfg \<longrightarrow>
      calculate_age cfg p uid now nm age = Inl (NameValidationException nm ''too_short''))
   \<and> (\<not> list_all isspace nm \<and> min_name_length cfg \<le> int (length nm)
        \<and> max_name_length cfg < int (length nm) \<longrightarrow>
      calculate_age cfg p uid now nm age = Inl (NameValidationException nm ''too_long''))
   \<and> (validate_name_with_exception cfg nm = Inr () \<and> (age < min_age cfg \<or> max_age cfg < age) \<longrightarrow>
      calculate_age cfg p uid now nm age
        = Inl (AgeValidationException age (min_age cfg) (max_age cfg)))
   \<and> (validate_name_with_exception default_ValidationConfig nm = Inr ()
        \<and> (age = - 1 \<or> age = 151) \<longrightarrow>
      calculate_age default_ValidationConfig p uid now nm age
        = Inl (AgeValidationException age 0 150))"
  by (auto simp: calculate_age_def validate_name_with_exception_def
        validate_age_with_exception_def blank_iff default_ValidationConfig_def)

theorem validation_errors_at_boundary_witness:
  "list_all isspace ''  ''
   \<and> calculate_age default_ValidationConfig
        \<lparr>get_current_year = 2024, get_current_month = 99, get_current_day = 15\<rparr>
        ''u'' ''t'' ''  '' 30 = Inl (NameValidationException ''  '' ''empty_value'')
   \<and> \<not> list_all isspace ''Al''
   \<and> int (length ''Al'') < min_name_length (default_ValidationConfig\<lparr>min_name_length := 3\<rparr>)
   \<and> calculate_age (default_ValidationConfig\<lparr>min_name_length := 3\<rparr>)
        \<lparr>get_current_year = 2024, get_current_month = 99, get_current_day = 15\<rparr>
        ''u'' ''t'' ''Al'' 30 = Inl (NameValidationException ''Al'' ''too_short'')
   \<and> \<not> list_all isspace ''Ada''
   \<and> min_name_length (default_ValidationConfig\<lparr>max_name_length := 2\<rparr>) \<le> int (length ''Ada'')
   \<and> max_name_length (default_ValidationConfig\<lparr>max_name_length := 2\<rparr>) < int (length ''Ada'')
   \<and> calculate_age (default_ValidationConfig\<lparr>max_name_length := 2\<rparr>)
        \<lparr>get_current_year = 2024, get_current_month = 99, get_current_day = 15\<rparr>
        ''u'' ''t'' ''Ada'' 30 = Inl (NameValidationException ''Ada'' ''too_long'')
   \<and> validate_name_with_exception default_ValidationConfig ''Ada'' = Inr ()
   \<and> calculate_age default_ValidationConfig
        \<lparr>get_current_year = 2024, get_current_month = 99, get_current_day = 15\<rparr>
        ''u'' ''t'' ''Ada'' (- 1) = Inl (AgeValidationException (- 1) 0 150)
   \<and> calculate_age default_ValidationConfig
        \<lparr>get_current_year = 2024, get_current_month = 99, get_current_day = 15\<rparr>
        ''u'' ''t'' ''Ada'' 151 = Inl (AgeValidationException 151 0 150)"
proof -
  let ?p = "\<lparr>get_current_year = 2024, get_current_month = 99, get_current_day = 15\<rparr>"
  have h: "list_all isspace ''  ''" "\<not> list_all isspace ''Al''" "\<not> list_all isspace ''Ada''"
    "int (length ''Al'') < min_name_length (default_ValidationConfig\<lparr>min_name_length := 3\<rparr>)"
    "min_name_length (default_ValidationConfig\<lparr>max_name_length := 2\<rparr>) \<le> int (length ''Ada'')"
    "max_name_length (default_ValidationConfig\<lparr>max_name_length := 2\<rparr>) < int (length ''Ada'')"
    "validate_name_with_exception default_ValidationConfig ''Ada'' = Inr ()"
    by code_simp+
  show ?thesis
    using h
      validation_errors_at_boundary [of "''  ''" default_ValidationConfig ?p "''u''" "''t''" 30]
      validation_errors_at_boundary
        [of "''Al''" "default_ValidationConfig\<lparr>min_name_length := 3\<rparr>" ?p "''u''" "''t''" 30]
      validation_errors_at_boundary
        [of "''Ada''" "default_ValidationConfig\<lparr>max_name_length := 2\<rparr>" ?p "''u''" "''t''" 30]
      validation_errors_at_boundary [of "''Ada''" default_ValidationConfig ?p "''u''" "''t''" "- 1"]
      validation_errors_at_boundary [of "''Ada''" default_ValidationConfig ?p "''u''" "''t''" 151]
    by simp
qed

section \<open>The name validator\<close>

text \<open>
  Claim C7.  \<open>validate_name\<close> holds exactly when the name is not empty after stripping
  whitespace, the length of the name (as given, not stripped) is within the two length
  bounds, and, in strict mode, every character of the name is among the allowed
  characters.  The default allowed characters are the letters a to z and A to Z, the
  space, the hyphen and the apostrophe.
\<close>

theorem validate_name_iff:
  "(validate_name cfg nm \<longleftrightarrow>
      strip nm \<noteq> []
      \<and> min_name_length cfg \<le> int (length nm) \<and> int (length nm) \<le> max_name_length cfg
      \<and> (strict_name_validation cfg \<longrightarrow> (\<forall>c\<in>set nm. c \<in> set (allowed_name_characters cfg))))
   \<and> (c \<in> set (allowed_name_characters default_ValidationConfig) \<longleftrightarrow>
        (of_char c :: nat) \<in> {97..122} \<union> {65..90} \<union> {32, 45, 39})"
proof -
  have "validate_name cfg nm \<longleftrightarrow>
      strip nm \<noteq> []
      \<and> min_name_length cfg \<le> int (length nm) \<and> int (length nm) \<le> max_name_length cfg
      \<and> (strict_name_validation cfg \<longrightarrow> (\<forall>c\<in>set nm. c \<in> set (allowed_name_characters cfg)))"
    by (auto simp: validate_name_def blank_strip list_all_iff)
  then show ?thesis
    using default_allowed [of c] by blast
qed

theorem validate_name_iff_witness:
  "validate_name (default_ValidationConfig\<lparr>strict_name_validation := True\<rparr>) ''Ada''
   \<and> strip ''Ada'' \<noteq> []
   \<and> min_name_length (default_ValidationConfig\<lparr>strict_name_validation := True\<rparr>)
       \<le> int (length ''Ada'')
   \<and> int (length ''Ada'')
       \<le> max_name_length (default_ValidationConfig\<lparr>strict_name_validation := True\<rparr>)
   \<and> strict_name_validation (default_ValidationConfig\<lparr>strict_name_validation := True\<rparr>)
   \<and> list_all (\<lambda>c. c \<in> set (allowed_name_characters
                   (default_ValidationConfig\<lparr>strict_name_validation := True\<rparr>))) ''Ada''
   \<and> \<not> validate_name (default_ValidationConfig\<lparr>strict_name_validation := True\<rparr>) ''Ada1''
   \<and> validate_name default_ValidationConfig ''Ada1''
   \<and> CHR ''1'' \<notin> set (allowed_name_characters default_ValidationConfig)
   \<and> CHR ''-'' \<in> set (allowed_name_characters default_ValidationConfig)"
proof -
  let ?S = "default_ValidationConfig\<lparr>strict_name_validation := True\<rparr>"
  have v: "validate_name ?S ''Ada''" "\<not> validate_name ?S ''Ada1''"
    "validate_name default_ValidationConfig ''Ada1''" "strict_name_validation ?S"
    by code_simp+
  from v(1,4) validate_name_iff [of ?S "''Ada''" "CHR ''1''"]
  have rhs: "strip ''Ada'' \<noteq> []" "min_name_length ?S \<le> int (length ''Ada'')"
    "int (length ''Ada'') \<le> max_name_length ?S"
    "list_all (\<lambda>c. c \<in> set (allowed_name_characters ?S)) ''Ada''"
    "CHR ''1'' \<notin> set (allowed_name_characters default_ValidationConfig)"
    by (simp_all add: list_all_iff)
  have "CHR ''-'' \<in> set (allowed_name_characters default_ValidationConfig)"
    using validate_name_iff [of ?S "''Ada''" "CHR ''-''"] by simp
  with v rhs show ?thesis by blast
qed

section \<open>The request's own validity check\<close>

text \<open>
  Claim C9.  \<open>validate\<close> tests the name as given, without stripping: a request whose name
  is two spaces, empty after stripping, with the age 0 is valid for it.
\<close>

theorem request_validate_whitespace_name:
  "validate \<lparr> request_id = ''r'', request_name = ''  '', age_in_years = 0,
              include_months = True, include_days = True, include_weeks = True,
              include_hours = True, include_minutes = True, requested_at = ''t'' \<rparr>
   \<and> strip ''  '' = []"
  by code_simp

section \<open>Invariants of the value objects\<close>

text \<open>
  Claim C10.  Constructing a \<^verbatim>\<open>PersonName\<close> from an empty or whitespace-only string raises,
  constructing an \<^verbatim>\<open>Age\<close> from a negative number raises, and what the two constructions
  return is a name not empty after stripping and an age not negative.  So every result
  built by \<open>calculate_age\<close> or read back by \<open>dict_to_result\<close>, which runs no
  validator, holds such a name and such an age whenever it holds both.
\<close>

theorem value_object_invariants:
  "(list_all isspace s \<longrightarrow> new_PersonName s = Inl NameEmpty)
   \<and> (n < 0 \<longrightarrow> new_Age n = Inl AgeNegative)
   \<and> (\<forall>pn. new_PersonName s = Inr pn \<longrightarrow> strip (name_value pn) \<noteq> [])
   \<and> (\<forall>a. new_Age n = Inr a \<longrightarrow> 0 \<le> years a)
   \<and> (\<forall>r pn a. (calculate_age cfg p uid now nm age = Inr r \<or> dict_to_result now' d = Inr r)
          \<and> name r = Some pn \<and> age_years r = Some a
        \<longrightarrow> strip (name_value pn) \<noteq> [] \<and> 0 \<le> years a)"
proof -
  have "list_all isspace s \<longrightarrow> new_PersonName s = Inl NameEmpty"
    by (simp add: new_PersonName_def blank_iff)
  moreover have "n < 0 \<longrightarrow> new_Age n = Inl AgeNegative"
    by (simp add: new_Age_def)
  moreover have "\<forall>r pn a. (calculate_age cfg p uid now nm age = Inr r \<or> dict_to_result now' d = Inr r)
          \<and> name r = Some pn \<and> age_years r = Some a
        \<longrightarrow> strip (name_value pn) \<noteq> [] \<and> 0 \<le> years a"
    using calculate_age_invariant dict_to_result_invariant by blast
  ultimately show ?thesis
    using new_PersonName_Inr new_Age_Inr by blast
qed

theorem value_object_invariants_witness:
  "list_all isspace ''  '' \<and> new_PersonName ''  '' = Inl NameEmpty
   \<and> (- 1 :: int) < 0 \<and> new_Age (- 1) = Inl AgeNegative
   \<and> new_PersonName ''Ada'' = Inr (MkPersonName ''Ada'')
   \<and> strip (name_value (MkPersonName ''Ada'')) \<noteq> []
   \<and> new_Age 30 = Inr (MkAge 30) \<and> 0 \<le> years (MkAge 30)
   \<and> (\<exists>r. dict_to_result ''t''
              (map_of [(''id'', PStr ''u''), (''name'', PStr ''Ada''), (''age_years'', PInt 30)])
            = Inr r
          \<and> name r = Some (MkPersonName ''Ada'') \<and> age_years r = Some (MkAge 30))
   \<and> dict_to_result ''t'' (map_of [(''id'', PStr ''u''), (''name'', PStr ''  '')])
       = Inl NameEmpty
   \<and> dict_to_result ''t'' (map_of [(''id'', PStr ''u''), (''age_years'', PInt (- 1))])
       = Inl AgeNegative"
proof -
  have e: "list_all isspace ''  ''" "new_PersonName ''Ada'' = Inr (MkPersonName ''Ada'')"
    "new_Age 30 = Inr (MkAge 30)"
    by code_simp+
  have "new_PersonName ''  '' = Inl NameEmpty" "new_Age (- 1) = Inl AgeNegative"
    using e(1) value_object_invariants [of "''  ''" "- 1"] by simp_all
  moreover have "strip (name_value (MkPersonName ''Ada'')) \<noteq> []" "0 \<le> years (MkAge 30)"
    using e(2,3) value_object_invariants [of "''Ada''" 30] by blast+
  ultimately show ?thesis
    using e ada_dict by simp
qed

section \<open>The round trip through the flat record\<close>

text \<open>
  Claim C2.  The result of \<open>calculate_age\<close> for Ada, of age 0, on 2024-01-03 has the
  age 0 and 0 weeks.  Its flat record holds both zeros, and \<open>dict_to_result\<close>, which
  tests the stored value and not its presence, reads both fields back as absent.
\<close>

theorem round_trip_drops_zero:
  "calculate_age default_ValidationConfig
     \<lparr>get_current_year = 2024, get_current_month = 1, get_current_day = 3\<rparr>
     ''u'' ''t'' ''Ada'' 0
   = Inr \<lparr> ident = ''u'', name = Some (MkPersonName ''Ada''), age_years = Some (MkAge 0),
            age_months = Some (MkAgeInMonths 1), age_days = Some (MkAgeInDays 3),
            age_weeks = Some (MkAgeInWeeks 0), age_hours = Some (MkAgeInHours 72),
            age_minutes = Some (MkAgeInMinutes 4320),
            calculation_timestamp = MkCalculationTimestamp ''t'',
            birth_year = Some 2024, current_year = Some 2024 \<rparr>
   \<and> dict_to_result ''t''
       (to_dict \<lparr> ident = ''u'', name = Some (MkPersonName ''Ada''), age_years = Some (MkAge 0),
            age_months = Some (MkAgeInMonths 1), age_days = Some (MkAgeInDays 3),
            age_weeks = Some (MkAgeInWeeks 0), age_hours = Some (MkAgeInHours 72),
            age_minutes = Some (MkAgeInMinutes 4320),
            calculation_timestamp = MkCalculationTimestamp ''t'',
            birth_year = Some 2024, current_year = Some 2024 \<rparr>)
   = Inr \<lparr> ident = ''u'', name = Some (MkPersonName ''Ada''), age_years = None,
            age_months = Some (MkAgeInMonths 1), age_days = Some (MkAgeInDays 3),
            age_weeks = None, age_hours = Some (MkAgeInHours 72),
            age_minutes = Some (MkAgeInMinutes 4320),
            calculation_timestamp = MkCalculationTimestamp ''t'',
            birth_year = Some 2024, current_year = Some 2024 \<rparr>"
  by code_simp

end
